theory Spec2Isabelle
  imports Main
begin

section \<open>Strings\<close>

text \<open>
  Field values are strings. A \<^typ>\<open>char\<close> stands for one character with a code below 256;
  among these the white space that JavaScript's \<^verbatim>\<open>String.prototype.trim\<close> removes is
  TAB, LF, VT, FF, CR, SPACE and NBSP, and the only decimal digits are \<^verbatim>\<open>0\<close> to \<^verbatim>\<open>9\<close>.
\<close>

definition js_whitespace :: "char \<Rightarrow> bool" where
  "js_whitespace c = (of_char c \<in> set [9, 10, 11, 12, 13, 32, 160 :: nat])"

definition trim :: "string \<Rightarrow> string" where
  "trim s = rev (dropWhile js_whitespace (rev (dropWhile js_whitespace s)))"

section \<open>The form record (web/app/lib/api.ts, \<^verbatim>\<open>DocumentInputs\<close>)\<close>

text \<open>
  The interface \<^verbatim>\<open>DocumentInputs\<close> and the type inferred from the form schema have the same
  shape: seven string fields and the optional \<^verbatim>\<open>course\<close>, \<^verbatim>\<open>professor\<close> and
  \<^verbatim>\<open>image_path\<close> (\<open>None\<close> is \<^verbatim>\<open>undefined\<close>). The field \<^verbatim>\<open>id\<close> is written \<open>id'\<close>.
\<close>

record DocumentInputs =
  language :: string
  name :: string
  id' :: string
  degree :: string
  course :: "string option"
  professor :: "string option"
  date :: string
  city :: string
  image_path :: "string option"
  activity_type :: string

section \<open>The form schema (document-build component, \<^verbatim>\<open>createFormSchema\<close>)\<close>

text \<open>
  A zod issue carries its code, the path of the field it is attached to and a message.
  \<^verbatim>\<open>z.string().min(1, {message})\<close> adds a \<^verbatim>\<open>too_small\<close> issue when the string has fewer
  than one character and does not abort the parse, so every key of the object is checked
  and the refinement still runs afterwards; \<^verbatim>\<open>ctx.addIssue\<close> inside \<^verbatim>\<open>superRefine\<close>
  adds a \<^verbatim>\<open>custom\<close> issue.
\<close>

datatype issue_code = too_small | custom

record issue =
  code :: issue_code
  path :: string
  message :: string

definition min1 :: "string \<Rightarrow> string \<Rightarrow> string \<Rightarrow> issue list" where
  "min1 key msg v =
     (if length v < 1 then [\<lparr>code = too_small, path = key, message = msg\<rparr>] else [])"

definition baseSchema :: "DocumentInputs \<Rightarrow> issue list" where
  "baseSchema data =
     min1 ''activity_type'' ''Please select an activity type.'' (activity_type data) @
     min1 ''language'' ''Please select a language.'' (language data) @
     min1 ''name'' ''Student name is required.'' (name data) @
     min1 ''id'' ''Student ID is required.'' (id' data) @
     min1 ''degree'' ''Degree program is required.'' (degree data) @
     min1 ''date'' ''Date is required.'' (date data) @
     min1 ''city'' ''City name is required.'' (city data)"

text \<open>The test \<^verbatim>\<open>!v || v.trim() === ""\<close> on an optional string.\<close>

definition missing :: "string option \<Rightarrow> bool" where
  "missing v = (case v of None \<Rightarrow> True | Some s \<Rightarrow> s = [] \<or> trim s = [])"

definition addIssue :: "string \<Rightarrow> string \<Rightarrow> issue list" where
  "addIssue msg key = [\<lparr>code = custom, path = key, message = msg\<rparr>]"

text \<open>
  The callback given to \<^verbatim>\<open>superRefine\<close>. The two copies of the component differ in one
  constant only, the tag that asks for the professor: \<^verbatim>\<open>"office-hours"\<close> in the first
  (lines 59 to 88) and \<^verbatim>\<open>"office-hours-meeting"\<close> in the second (lines 518 to 547); it is
  the parameter \<open>office\<close>.
\<close>

definition refinement :: "string \<Rightarrow> DocumentInputs \<Rightarrow> issue list" where
  "refinement office data =
     (if activity_type data = ''lectures'' then
        (if missing (course data) then addIssue ''Course is required for lectures.'' ''course''
         else [])
      else []) @
     (if activity_type data = ''oral-exam'' \<or> activity_type data = ''written-exam'' then
        (if missing (course data) then addIssue ''Course is required for exams.'' ''course''
         else [])
      else []) @
     (if activity_type data = office then
        (if missing (professor data)
         then addIssue ''Professor is required for office hours.'' ''professor''
         else [])
      else [])"

definition formSchema :: "string \<Rightarrow> bool \<Rightarrow> DocumentInputs \<Rightarrow> issue list" where
  "formSchema office hasSubmitted data =
     (if \<not> hasSubmitted then baseSchema data
      else baseSchema data @ refinement office data)"

text \<open>\<^verbatim>\<open>createFormSchema\<close> of the first copy (lines 27 to 89).\<close>

definition createFormSchema :: "bool \<Rightarrow> DocumentInputs \<Rightarrow> issue list" where
  "createFormSchema = formSchema ''office-hours''"

text \<open>\<^verbatim>\<open>createFormSchema\<close> of the second copy, the one with the cookies (lines 486 to 548).\<close>

definition createFormSchema2 :: "bool \<Rightarrow> DocumentInputs \<Rightarrow> issue list" where
  "createFormSchema2 = formSchema ''office-hours-meeting''"

text \<open>
  The resolver \<^verbatim>\<open>zodResolver(createFormSchema(hasSubmittedOnce))\<close>: the parsed record when
  the schema raises no issue, the issues otherwise.
\<close>

definition resolve :: "issue list \<Rightarrow> DocumentInputs \<Rightarrow> issue list + DocumentInputs" where
  "resolve issues data = (if issues = [] then Inr data else Inl issues)"

definition validate :: "bool \<Rightarrow> DocumentInputs \<Rightarrow> issue list + DocumentInputs" where
  "validate hasSubmitted data = resolve (createFormSchema hasSubmitted data) data"

definition validate2 :: "bool \<Rightarrow> DocumentInputs \<Rightarrow> issue list + DocumentInputs" where
  "validate2 hasSubmitted data = resolve (createFormSchema2 hasSubmitted data) data"

text \<open>The issues of a result, and the two kinds of error of the specification read on them.\<close>

definition errors :: "issue list + DocumentInputs \<Rightarrow> issue list" where
  "errors r = (case r of Inl es \<Rightarrow> es | Inr _ \<Rightarrow> [])"

definition FieldRequired :: "string \<Rightarrow> issue list + DocumentInputs \<Rightarrow> bool" where
  "FieldRequired key r = list_ex (\<lambda>i. code i = too_small \<and> path i = key) (errors r)"

definition ActivityFieldRequired :: "string \<Rightarrow> issue list + DocumentInputs \<Rightarrow> bool" where
  "ActivityFieldRequired key r = list_ex (\<lambda>i. code i = custom \<and> path i = key) (errors r)"

definition reported :: "string \<Rightarrow> issue list + DocumentInputs \<Rightarrow> bool" where
  "reported key r = list_ex (\<lambda>i. path i = key) (errors r)"

section \<open>The document template (api/template/document.typ)\<close>

subsection \<open>Dates\<close>

text \<open>
  The template checks the date against \<^verbatim>\<open>^\d{4}-\d{2}-\d{2}$\<close>, parses it with
  \<^verbatim>\<open>toml(bytes("date = " + date_str)).date\<close> and prints it with
  \<^verbatim>\<open>display("[day]/[month]/[year]")\<close>. A TOML local date is four digits, two digits and
  two digits that name a day of the calendar; the components \<^verbatim>\<open>[day]\<close> and \<^verbatim>\<open>[month]\<close>
  print two digits and \<^verbatim>\<open>[year]\<close> four, padded with zeros.
\<close>

definition is_digit :: "char \<Rightarrow> bool" where
  "is_digit c = (48 \<le> (of_char c :: nat) \<and> (of_char c :: nat) \<le> 57)"

definition digit_val :: "char \<Rightarrow> nat" where
  "digit_val c = of_char c - 48"

definition digit_char :: "nat \<Rightarrow> char" where
  "digit_char n = char_of (48 + n)"

fun date_regex :: "string \<Rightarrow> bool" where
  "date_regex [y1, y2, y3, y4, s1, m1, m2, s2, d1, d2] =
     (is_digit y1 \<and> is_digit y2 \<and> is_digit y3 \<and> is_digit y4 \<and> s1 = CHR ''-'' \<and>
      is_digit m1 \<and> is_digit m2 \<and> s2 = CHR ''-'' \<and> is_digit d1 \<and> is_digit d2)"
| "date_regex _ = False"

record datetime =
  year :: nat
  month :: nat
  day :: nat

definition is_leap_year :: "nat \<Rightarrow> bool" where
  "is_leap_year y = (y mod 4 = 0 \<and> (y mod 100 \<noteq> 0 \<or> y mod 400 = 0))"

definition days_in_month :: "nat \<Rightarrow> nat \<Rightarrow> nat" where
  "days_in_month y m =
     (if m = 2 then (if is_leap_year y then 29 else 28)
      else if m = 4 \<or> m = 6 \<or> m = 9 \<or> m = 11 then 30
      else 31)"

fun toml_date :: "string \<Rightarrow> datetime option" where
  "toml_date [y1, y2, y3, y4, s1, m1, m2, s2, d1, d2] =
     (if is_digit y1 \<and> is_digit y2 \<and> is_digit y3 \<and> is_digit y4 \<and> s1 = CHR ''-'' \<and>
         is_digit m1 \<and> is_digit m2 \<and> s2 = CHR ''-'' \<and> is_digit d1 \<and> is_digit d2
      then
        (let y = 1000 * digit_val y1 + 100 * digit_val y2 + 10 * digit_val y3 + digit_val y4;
             m = 10 * digit_val m1 + digit_val m2;
             d = 10 * digit_val d1 + digit_val d2
         in if 1 \<le> m \<and> m \<le> 12 \<and> 1 \<le> d \<and> d \<le> days_in_month y m
            then Some \<lparr>year = y, month = m, day = d\<rparr> else None)
      else None)"
| "toml_date _ = None"

definition pad2 :: "nat \<Rightarrow> string" where
  "pad2 n = [digit_char (n div 10 mod 10), digit_char (n mod 10)]"

definition pad4 :: "nat \<Rightarrow> string" where
  "pad4 n = [digit_char (n div 1000 mod 10), digit_char (n div 100 mod 10),
             digit_char (n div 10 mod 10), digit_char (n mod 10)]"

text \<open>\<^verbatim>\<open>when.display("[day]/[month]/[year]")\<close>\<close>

definition display :: "datetime \<Rightarrow> string" where
  "display when = pad2 (day when) @ ''/'' @ pad2 (month when) @ ''/'' @ pad4 (year when)"

subsection \<open>Helper functions of the template\<close>

definition date_with_city :: "string \<Rightarrow> datetime \<Rightarrow> string" where
  "date_with_city c when = c @ '', '' @ display when"

text \<open>\<^verbatim>\<open>value-or-blank\<close>: \<^verbatim>\<open>"_" * 20\<close> for \<^verbatim>\<open>none\<close> and for the empty string.\<close>

definition value_or_blank :: "string option \<Rightarrow> string" where
  "value_or_blank v =
     (case v of None \<Rightarrow> replicate 20 (CHR ''_'')
      | Some s \<Rightarrow> if length s = 0 then replicate 20 (CHR ''_'') else s)"

subsection \<open>Content\<close>

text \<open>
  The content the template builds. \<open>Transl key args\<close> is \<^verbatim>\<open>transl(key, args: ...)\<close>: the
  message files under \<^verbatim>\<open>ftl/\<close> are not part of the sources, so a translated text is kept as
  its key and its arguments. \<open>Item m body\<close> is a list item \<^verbatim>\<open>- [x] ...\<close> or
  \<^verbatim>\<open>- [  ] ...\<close> that the \<^verbatim>\<open>checklist\<close> rule shows as a ticked or an empty box; an item
  ends with its line, so the lines that follow it at the same indentation are blocks of
  their own.
\<close>

datatype marker = Checked | Unchecked

datatype inline =
    Str string
  | Transl string "(string \<times> string option) list"
  | Strong inline
  | Linebreak
  | Line
  | Image "string option"
  | Box string nat

datatype block =
    Grid "inline list list"
  | AlignRight inline
  | Smallcaps inline
  | Par inline
  | V nat
  | SetListIndent nat
  | Item marker "inline list"

text \<open>\<^verbatim>\<open>field\<close>: a line of 35 underscores for the empty text, a box under the text otherwise.\<close>

definition field :: "string \<Rightarrow> inline" where
  "field txt = (if length txt = 0 then Str (replicate 35 (CHR ''_''))
                else Box txt (10 * length txt))"

subsection \<open>The document\<close>

datatype typst_error =
    AssertionFailed string
  | NoMethodOnNone string
  | TomlParseError

definition provided :: "string option \<Rightarrow> bool" where
  "provided v = (case v of None \<Rightarrow> False | Some s \<Rightarrow> length s > 0)"

definition activities :: "string list" where
  "activities = [''lectures'', ''oral-exam'', ''written-exam'', ''office-hours'']"

definition one_if :: "bool \<Rightarrow> nat" where
  "one_if b = (if b then 1 else 0)"

text \<open>The body inside \<^verbatim>\<open>align(horizon, [...])\<close>, lines 125 to 205.\<close>

definition body :: "DocumentInputs \<Rightarrow> datetime \<Rightarrow> block list" where
  "body inputs when =
     [AlignRight (Str (date_with_city (city inputs) when)),
      V 40,
      Smallcaps (Transl ''declaration'' []),
      Par (Transl ''student-data''
             [(''name'', Some (name inputs)), (''id'', Some (id' inputs)),
              (''degree'', Some (degree inputs))]),
      V 20] @
     (if activity_type inputs = ''lectures'' then
        [Item Checked [Strong (Transl ''lectures'' []), Linebreak],
         Par (Transl ''lecture-description''
                [(''course'', Some (value_or_blank (course inputs)))])]
      else
        [Item Unchecked [Strong (Transl ''lectures'' []), Linebreak],
         Par (Transl ''lecture-description''
                [(''course'', Some (value_or_blank (course inputs)))])]) @
     [V 15] @
     (if activity_type inputs = ''written-exam'' then
        [Item Checked [Strong (Transl ''exams'' []), Linebreak],
         Par (Transl ''exams-description'' []),
         V 5,
         SetListIndent 15,
         Item Checked [Transl ''written-exam'' []],
         Item Unchecked [Transl ''oral-exam'' []],
         SetListIndent 0]
      else if activity_type inputs = ''oral-exam'' then
        [Item Checked [Strong (Transl ''exams'' []), Linebreak],
         Par (Transl ''exams-description'' []),
         V 5,
         SetListIndent 15,
         Item Unchecked [Transl ''written-exam'' []],
         Item Checked [Transl ''oral-exam'' []],
         SetListIndent 0]
      else
        [Item Unchecked [Strong (Transl ''exams'' []), Linebreak],
         Par (Transl ''exams-description'' []),
         V 5,
         SetListIndent 15,
         Item Unchecked [Transl ''written-exam'' []],
         Item Unchecked [Transl ''oral-exam'' []],
         SetListIndent 0]) @
     [Par (Transl ''for-the-course'' [(''course'', course inputs)]),
      V 15] @
     (if activity_type inputs = ''office-hours'' then
        [Item Checked [Strong (Transl ''office-hours'' []), Linebreak],
         Par (Transl ''office-hours-description''
                [(''professor'', Some (value_or_blank (professor inputs)))])]
      else
        [Item Unchecked [Strong (Transl ''office-hours'' []), Linebreak],
         Par (Transl ''office-hours-description''
                [(''professor'', Some (value_or_blank (professor inputs)))])]) @
     [V 20,
      Grid [[Transl ''appointed-professor'' [], Linebreak, Transl ''signature-description'' []],
            [field []]]]"

text \<open>
  The whole template: the assertions in their order, the date parsed before the last one,
  then the letterhead grid and the body. A date that the pattern does not match makes
  \<^verbatim>\<open>match\<close> return \<^verbatim>\<open>none\<close>, on which \<^verbatim>\<open>.len()\<close> is an error of its own.
  The result is the content handed to the typesetter; what the typesetter may still
  refuse (an image file it cannot read, a language code it does not know) is not part of
  it.
\<close>

definition document :: "DocumentInputs \<Rightarrow> typst_error + block list" where
  "document inputs =
     (if \<not> provided (Some (name inputs)) then Inl (AssertionFailed ''Name must be provided.'')
      else if \<not> provided (Some (id' inputs)) then Inl (AssertionFailed ''ID must be provided.'')
      else if \<not> provided (Some (degree inputs))
        then Inl (AssertionFailed ''Degree must be provided.'')
      else if \<not> date_regex (date inputs) then Inl (NoMethodOnNone ''len'')
      else if \<not> provided (Some (city inputs)) then Inl (AssertionFailed ''City must be provided.'')
      else if \<not> provided (image_path inputs)
        then Inl (AssertionFailed ''Image path must be provided.'')
      else if \<not> provided (Some (language inputs))
        then Inl (AssertionFailed ''Language must be provided.'')
      else if activity_type inputs \<notin> set activities
        then Inl (AssertionFailed
          ''Activity must be one of: lectures, oral-exam, written-exam, office-hours'')
      else case toml_date (date inputs) of
        None \<Rightarrow> Inl TomlParseError
      | Some when \<Rightarrow>
          if \<not> (one_if (activity_type inputs = ''lectures'')
                  + one_if (activity_type inputs = ''oral-exam'')
                  + one_if (activity_type inputs = ''written-exam'')
                  + one_if (activity_type inputs = ''office-hours'') \<le> 1)
          then Inl (AssertionFailed
            ''At most one of lectures, oral-exam, written-exam, office-hours can be true.'')
          else Inr (Grid [[Transl ''disi'' []], [Line], [Image (image_path inputs)]]
                    # body inputs when))"

subsection \<open>Reading a document\<close>


fun label :: "inline list \<Rightarrow> string option" where
  "label (Strong (Transl k _) # _) = Some k"
| "label (Transl k _ # _) = Some k"
| "label _ = None"

fun checkboxes :: "block list \<Rightarrow> (string \<times> marker) list" where
  "checkboxes [] = []"
| "checkboxes (Item m b # bs) =
     (case label b of Some k \<Rightarrow> (k, m) # checkboxes bs | None \<Rightarrow> checkboxes bs)"
| "checkboxes (_ # bs) = checkboxes bs"

definition checked :: "block list \<Rightarrow> string list" where
  "checked doc = map fst (filter (\<lambda>(k, m). m = Checked) (checkboxes doc))"

fun inline_texts :: "inline \<Rightarrow> (string \<times> (string \<times> string option) list) list" where
  "inline_texts (Transl k args) = [(k, args)]"
| "inline_texts (Strong i) = inline_texts i"
| "inline_texts _ = []"

fun block_texts :: "block \<Rightarrow> (string \<times> (string \<times> string option) list) list" where
  "block_texts (Grid cells) = concat (map inline_texts (concat cells))"
| "block_texts (AlignRight i) = inline_texts i"
| "block_texts (Smallcaps i) = inline_texts i"
| "block_texts (Par i) = inline_texts i"
| "block_texts (Item m b) = concat (map inline_texts b)"
| "block_texts _ = []"

text \<open>Every value given for the argument \<open>arg\<close>, with the key of the text that takes it.\<close>

definition occurrences :: "string \<Rightarrow> block list \<Rightarrow> (string \<times> string option) list" where
  "occurrences arg doc =
     concat (map (\<lambda>(k, args). map (\<lambda>(a, v). (k, v)) (filter (\<lambda>(a, v). a = arg) args))
                 (concat (map block_texts doc)))"

section \<open>The form session (document-build component, \<^verbatim>\<open>onSubmit\<close>)\<close>

text \<open>
  The component keeps two flags with \<^verbatim>\<open>useState\<close>. A render reads them and creates the
  handlers and the resolver from what it read:
  \<^verbatim>\<open>useForm({resolver: zodResolver(createFormSchema(hasSubmittedOnce)), ...})\<close> builds the
  resolver, and \<^verbatim>\<open>onSubmit\<close> closes over the constants \<^verbatim>\<open>isGenerating\<close> and
  \<^verbatim>\<open>hasSubmittedOnce\<close> of that render. A setter (\<^verbatim>\<open>setHasSubmittedOnce\<close>,
  \<^verbatim>\<open>setIsGenerating\<close>) changes the flag that the next render will read and asks for that
  render; it changes nothing for the handlers that exist. So a session holds the flags of
  the last render (\<open>rendered\<close>), the flags as the setters left them (\<open>pending\<close>), and the
  build requests sent to the service and not answered yet. A render is an event of its
  own: nothing in the component makes it come before the next submission.

  The session is that of the first copy of the component; the second copy differs in its
  schema and in the cookies it writes before the request.
\<close>

record flags =
  hasSubmittedOnce :: bool
  isGenerating :: bool

record session =
  rendered :: flags
  pending :: flags
  outstanding :: "DocumentInputs list"

definition initial :: session where
  "initial =
     \<lparr>rendered = \<lparr>hasSubmittedOnce = False, isGenerating = False\<rparr>,
      pending = \<lparr>hasSubmittedOnce = False, isGenerating = False\<rparr>,
      outstanding = []\<rparr>"

definition setHasSubmittedOnce :: "bool \<Rightarrow> session \<Rightarrow> session" where
  "setHasSubmittedOnce v s = s\<lparr>pending := (pending s)\<lparr>hasSubmittedOnce := v\<rparr>\<rparr>"

definition setIsGenerating :: "bool \<Rightarrow> session \<Rightarrow> session" where
  "setIsGenerating v s = s\<lparr>pending := (pending s)\<lparr>isGenerating := v\<rparr>\<rparr>"

text \<open>The component renders: the new handlers and the new resolver read the pending flags.\<close>

definition render :: "session \<Rightarrow> session" where
  "render s = s\<lparr>rendered := pending s\<rparr>"

text \<open>\<^verbatim>\<open>v || d\<close> on an optional string.\<close>

definition or_default :: "string option \<Rightarrow> string \<Rightarrow> string" where
  "or_default v d = (case v of None \<Rightarrow> d | Some s \<Rightarrow> if s = [] then d else s)"

definition documentInputs :: "DocumentInputs \<Rightarrow> DocumentInputs" where
  "documentInputs data =
     \<lparr>language = language data,
      name = name data,
      id' = id' data,
      degree = degree data,
      course = Some (or_default (course data) []),
      professor = Some (or_default (professor data) []),
      date = date data,
      city = city data,
      image_path = Some (or_default (image_path data) ''imgs/unitn.jpg''),
      activity_type = activity_type data\<rparr>"

text \<open>
  \<^verbatim>\<open>form.trigger()\<close> runs the resolver of the last render on the values of the form and
  answers whether it found no error.
\<close>

definition trigger :: "session \<Rightarrow> DocumentInputs \<Rightarrow> bool" where
  "trigger s data = (errors (validate (hasSubmittedOnce (rendered s)) data) = [])"

text \<open>
  From \<^verbatim>\<open>setIsGenerating(true)\<close> to \<^verbatim>\<open>await apiService.buildDocument(documentInputs)\<close>:
  the request is sent and the handler waits for the answer.
\<close>

definition generate :: "session \<Rightarrow> DocumentInputs \<Rightarrow> session" where
  "generate s data =
     (setIsGenerating True s)\<lparr>outstanding := outstanding s @ [documentInputs data]\<rparr>"

text \<open>
  \<^verbatim>\<open>onSubmit\<close>, lines 150 to 201, up to the request. The guard and the test of
  \<^verbatim>\<open>hasSubmittedOnce\<close> read the constants of the render; \<^verbatim>\<open>await form.trigger()\<close> calls
  the resolver at once, before any render. From the event to the request the handler
  waits on promises of the page only, so no other event comes in between.
\<close>

definition onSubmit :: "session \<Rightarrow> DocumentInputs \<Rightarrow> session" where
  "onSubmit s data =
     (if isGenerating (rendered s) then s
      else if \<not> hasSubmittedOnce (rendered s) then
        (let s' = setHasSubmittedOnce True s;
             isValid = trigger s' data
         in if \<not> isValid then s' else generate s' data)
      else generate s data)"

text \<open>
  \<^verbatim>\<open>form.handleSubmit(onSubmit)\<close>: the resolver runs first and \<^verbatim>\<open>onSubmit\<close> is called with
  the parsed record only when it found no error.
\<close>

definition handleSubmit :: "session \<Rightarrow> DocumentInputs \<Rightarrow> session" where
  "handleSubmit s data =
     (case validate (hasSubmittedOnce (rendered s)) data of
        Inl _ \<Rightarrow> s
      | Inr parsed \<Rightarrow> onSubmit s parsed)"

text \<open>
  The answer of the service to the oldest request: the rest of the \<^verbatim>\<open>try\<close> block when it
  is a document (\<open>True\<close>), the \<^verbatim>\<open>catch\<close> block when it is an error (\<open>False\<close>), and
  \<^verbatim>\<open>finally { setIsGenerating(false) }\<close> after either. The two blocks touch the page and
  the console only.
\<close>

definition buildReturned :: "session \<Rightarrow> bool \<Rightarrow> session" where
  "buildReturned s ok =
     (case outstanding s of
        [] \<Rightarrow> s
      | r # rs \<Rightarrow>
          setIsGenerating False
            (if ok then s\<lparr>outstanding := rs\<rparr> else s\<lparr>outstanding := rs\<rparr>))"

datatype event = Submit DocumentInputs | BuildReturned bool | Render

fun step :: "session \<Rightarrow> event \<Rightarrow> session" where
  "step s (Submit data) = handleSubmit s data"
| "step s (BuildReturned ok) = buildReturned s ok"
| "step s Render = render s"

definition run :: "event list \<Rightarrow> session" where
  "run es = foldl step initial es"

text \<open>The sessions in which the component renders after every event.\<close>

definition step_then_render :: "session \<Rightarrow> event \<Rightarrow> session" where
  "step_then_render s e = render (step s e)"

definition run_rendered :: "event list \<Rightarrow> session" where
  "run_rendered es = foldl step_then_render initial es"

section \<open>Records used as examples\<close>

text \<open>The record of the commented example in the template, as the form holds it.\<close>

definition example :: DocumentInputs where
  "example =
     \<lparr>language = ''it'', name = ''Elena Rossi'', id' = ''12345678'',
      degree = ''Computer Science'', course = Some ''Advanced Programming'',
      professor = Some ''Mario Bianchi'', date = ''2024-01-01'', city = ''Trento'',
      image_path = Some ''imgs/unitn.jpg'', activity_type = ''lectures''\<rparr>"

text \<open>A name of white space only.\<close>

definition whitespace_name :: DocumentInputs where
  "whitespace_name = example\<lparr>name := ''   ''\<rparr>"

text \<open>A date that is not of the shape \<^verbatim>\<open>YYYY-MM-DD\<close>.\<close>

definition malformed_date :: DocumentInputs where
  "malformed_date = example\<lparr>date := ''01/01/2024''\<rparr>"

text \<open>Lectures with no course; the same with no name either.\<close>

definition lectures_no_course :: DocumentInputs where
  "lectures_no_course = example\<lparr>course := Some []\<rparr>"

definition two_violations :: DocumentInputs where
  "two_violations = example\<lparr>name := [], course := Some '' ''\<rparr>"

text \<open>Office hours with no professor, and office hours with no course.\<close>

definition office_hours_no_professor :: DocumentInputs where
  "office_hours_no_professor = example\<lparr>activity_type := ''office-hours'', professor := Some []\<rparr>"

definition office_hours_no_course :: DocumentInputs where
  "office_hours_no_course = example\<lparr>activity_type := ''office-hours'', course := Some []\<rparr>"

text \<open>What holds of the requests in flight in every state the session reaches.\<close>

definition in_flight_ok :: "session \<Rightarrow> bool" where
  "in_flight_ok s =
     (pending s = rendered s \<and> length (outstanding s) \<le> 1 \<and>
      (isGenerating (rendered s) = (outstanding s \<noteq> [])))"

section \<open>Validation\<close>

subsection \<open>Issues of the parts of the schema\<close>

lemma list_ex_min1:
  "list_ex P (min1 key msg v) = (v = [] \<and> P \<lparr>code = too_small, path = key, message = msg\<rparr>)"
  by (simp add: min1_def)

lemma list_ex_addIssue:
  "list_ex P (addIssue msg key) = P \<lparr>code = custom, path = key, message = msg\<rparr>"
  by (simp add: addIssue_def)

lemma paths_min1: "map path (min1 key msg v) = (if v = [] then [key] else [])"
  by (simp add: min1_def)

lemma errors_resolve: "errors (resolve issues d) = issues"
  by (simp add: errors_def resolve_def)

lemma trim_Nil: "trim [] = []"
  by (simp add: trim_def)

lemma missing_iff: "missing v = (case v of None \<Rightarrow> True | Some s \<Rightarrow> trim s = [])"
  by (auto simp: missing_def trim_Nil split: option.splits)

lemma baseSchema_no_custom: "\<not> list_ex (\<lambda>i. code i = custom \<and> path i = k) (baseSchema d)"
  by (simp add: baseSchema_def list_ex_min1)

lemma refinement_no_too_small:
  "\<not> list_ex (\<lambda>i. code i = too_small \<and> path i = k) (refinement office d)"
  by (simp add: refinement_def list_ex_addIssue)

lemma baseSchema_not_course: "\<not> list_ex (\<lambda>i. path i = ''course'') (baseSchema d)"
  by (simp add: baseSchema_def list_ex_min1)

lemma baseSchema_not_professor: "\<not> list_ex (\<lambda>i. path i = ''professor'') (baseSchema d)"
  by (simp add: baseSchema_def list_ex_min1)

lemma FieldRequired_formSchema:
  "FieldRequired k (resolve (formSchema office hs d) d) =
     list_ex (\<lambda>i. code i = too_small \<and> path i = k) (baseSchema d)"
  by (simp add: FieldRequired_def errors_resolve formSchema_def refinement_no_too_small)

lemma ActivityFieldRequired_formSchema:
  "ActivityFieldRequired k (resolve (formSchema office hs d) d) =
     (hs \<and> list_ex (\<lambda>i. code i = custom \<and> path i = k) (refinement office d))"
  by (simp add: ActivityFieldRequired_def errors_resolve formSchema_def baseSchema_no_custom)

lemma distinct_baseSchema: "distinct (map path (baseSchema d))"
  by (simp add: baseSchema_def paths_min1)

lemma paths_baseSchema:
  "set (map path (baseSchema d)) \<subseteq>
     set [''activity_type'', ''language'', ''name'', ''id'', ''degree'', ''date'', ''city'']"
  by (auto simp add: baseSchema_def paths_min1 split: if_splits)

lemma distinct_refinement: "distinct (map path (refinement office d))"
  by (simp add: refinement_def addIssue_def)

lemma paths_refinement:
  "set (map path (refinement office d)) \<subseteq> set [''course'', ''professor'']"
  by (auto simp add: refinement_def addIssue_def split: if_splits)

lemma disjoint_paths:
  "set (map path (baseSchema d)) \<inter> set (map path (refinement office d)) = {}"
proof -
  have "set [''activity_type'', ''language'', ''name'', ''id'', ''degree'', ''date'', ''city'']
          \<inter> set [''course'', ''professor''] = {}"
    by simp
  with paths_baseSchema [of d] paths_refinement [of office d] show ?thesis
    by blast
qed

lemma distinct_formSchema: "distinct (map path (formSchema office hs d))"
  using disjoint_paths [of d office]
  by (simp add: formSchema_def distinct_baseSchema distinct_refinement)

lemma reported_iff:
  "reported k (validate hs d) \<longleftrightarrow>
     (k = ''activity_type'' \<and> activity_type d = []) \<or>
     (k = ''language'' \<and> language d = []) \<or>
     (k = ''name'' \<and> name d = []) \<or>
     (k = ''id'' \<and> id' d = []) \<or>
     (k = ''degree'' \<and> degree d = []) \<or>
     (k = ''date'' \<and> date d = []) \<or>
     (k = ''city'' \<and> city d = []) \<or>
     (hs \<and> k = ''course'' \<and> missing (course d) \<and>
        activity_type d \<in> {''lectures'', ''oral-exam'', ''written-exam''}) \<or>
     (hs \<and> k = ''professor'' \<and> missing (professor d) \<and> activity_type d = ''office-hours'')"
  by (auto simp add: reported_def validate_def createFormSchema_def errors_resolve
      formSchema_def baseSchema_def list_ex_min1 refinement_def list_ex_addIssue)

lemma validate_errors_Nil: "errors (validate hs d) = [] \<longleftrightarrow> validate hs d = Inr d"
  by (simp add: validate_def resolve_def errors_def)

text \<open>
  The first copy of the component follows the conditional rules with the tag
  \<^verbatim>\<open>office-hours\<close>: after the first submission the course is asked for lectures and both
  exams, the professor for office hours, both when empty after trimming; before it neither
  field is ever reported.
\<close>

lemma conditional_rules_first_copy:
  "(ActivityFieldRequired ''course'' (validate True d) \<longleftrightarrow>
      (case course d of None \<Rightarrow> True | Some s \<Rightarrow> trim s = []) \<and>
      activity_type d \<in> {''lectures'', ''oral-exam'', ''written-exam''}) \<and>
   (ActivityFieldRequired ''professor'' (validate True d) \<longleftrightarrow>
      (case professor d of None \<Rightarrow> True | Some s \<Rightarrow> trim s = []) \<and>
      activity_type d = ''office-hours'') \<and>
   \<not> reported ''course'' (validate False d) \<and> \<not> reported ''professor'' (validate False d)"
  by (simp add: ActivityFieldRequired_def reported_def validate_def createFormSchema_def
      errors_resolve formSchema_def baseSchema_no_custom baseSchema_not_course
      baseSchema_not_professor refinement_def list_ex_addIssue missing_iff)

text \<open>
  The second copy asks for the professor under the tag \<^verbatim>\<open>office-hours-meeting\<close> only, a
  tag that is not among the \<^verbatim>\<open>activities\<close> of the template.
\<close>

lemma conditional_rules_second_copy:
  "(ActivityFieldRequired ''professor'' (validate2 True d) \<longleftrightarrow>
      (case professor d of None \<Rightarrow> True | Some s \<Rightarrow> trim s = []) \<and>
      activity_type d = ''office-hours-meeting'') \<and>
   ''office-hours-meeting'' \<notin> set activities"
  by (simp add: validate2_def createFormSchema2_def ActivityFieldRequired_formSchema
      refinement_def list_ex_addIssue missing_iff activities_def)

subsection \<open>The claims on validation\<close>

text \<open>
  C1. The claim: once \<^verbatim>\<open>hasSubmittedOnce\<close> is true, \<^verbatim>\<open>professor\<close> is reported exactly when
  it is empty after trimming and the activity is \<^verbatim>\<open>office-hours\<close>. The second copy of the
  form schema does not do so: for office hours with an empty professor it reports nothing
  and accepts the record, while the first copy reports the professor.
\<close>

theorem second_copy_accepts_office_hours_without_professor:
  "activity_type office_hours_no_professor = ''office-hours'' \<and>
   professor office_hours_no_professor = Some [] \<and>
   validate2 True office_hours_no_professor = Inr office_hours_no_professor \<and>
   \<not> ActivityFieldRequired ''professor'' (validate2 True office_hours_no_professor) \<and>
   ActivityFieldRequired ''professor'' (validate True office_hours_no_professor)"
  by (simp add: office_hours_no_professor_def example_def validate2_def createFormSchema2_def
      validate_def createFormSchema_def formSchema_def resolve_def baseSchema_def min1_def
      refinement_def addIssue_def missing_def trim_def ActivityFieldRequired_def errors_def)

text \<open>
  C2, as amended. For both values of \<^verbatim>\<open>hasSubmittedOnce\<close>, each of \<^verbatim>\<open>activity_type\<close>,
  \<^verbatim>\<open>language\<close>, \<^verbatim>\<open>name\<close>, \<^verbatim>\<open>id\<close>, \<^verbatim>\<open>degree\<close>, \<^verbatim>\<open>date\<close> and \<^verbatim>\<open>city\<close> is reported as
  required exactly when its value is the empty string; the value is not trimmed.
\<close>

theorem required_iff_empty:
  "(FieldRequired ''activity_type'' (validate hs d) \<longleftrightarrow> activity_type d = []) \<and>
   (FieldRequired ''language'' (validate hs d) \<longleftrightarrow> language d = []) \<and>
   (FieldRequired ''name'' (validate hs d) \<longleftrightarrow> name d = []) \<and>
   (FieldRequired ''id'' (validate hs d) \<longleftrightarrow> id' d = []) \<and>
   (FieldRequired ''degree'' (validate hs d) \<longleftrightarrow> degree d = []) \<and>
   (FieldRequired ''date'' (validate hs d) \<longleftrightarrow> date d = []) \<and>
   (FieldRequired ''city'' (validate hs d) \<longleftrightarrow> city d = [])"
  by (simp add: validate_def createFormSchema_def FieldRequired_formSchema baseSchema_def
      list_ex_min1)

theorem required_iff_empty_witness:
  "FieldRequired ''name'' (validate False two_violations) \<and>
   \<not> FieldRequired ''city'' (validate False two_violations)"
  using required_iff_empty [of False two_violations]
  by (simp add: two_violations_def example_def)

text \<open>
  C2 as stated fails: a name of three spaces is empty after trimming, and it is not
  reported, before the first submission or after it.
\<close>

theorem whitespace_name_not_reported:
  "trim (name whitespace_name) = [] \<and>
   \<not> FieldRequired ''name'' (validate False whitespace_name) \<and>
   \<not> FieldRequired ''name'' (validate True whitespace_name)"
  by (simp add: whitespace_name_def example_def trim_def js_whitespace_def FieldRequired_def
      validate_def createFormSchema_def formSchema_def errors_resolve baseSchema_def min1_def
      refinement_def addIssue_def missing_def)

text \<open>
  C5. One call reports every violated field, each once: the paths of the issues are
  distinct, a field is reported exactly when its own rule fails, whatever the other fields
  hold, and so a record with no name and, under the strict rules, no course for lectures has
  both errors.
\<close>

theorem all_violations_reported:
  "distinct (map path (errors (validate hs d))) \<and>
   (reported k (validate hs d) \<longleftrightarrow>
     (k = ''activity_type'' \<and> activity_type d = []) \<or>
     (k = ''language'' \<and> language d = []) \<or>
     (k = ''name'' \<and> name d = []) \<or>
     (k = ''id'' \<and> id' d = []) \<or>
     (k = ''degree'' \<and> degree d = []) \<or>
     (k = ''date'' \<and> date d = []) \<or>
     (k = ''city'' \<and> city d = []) \<or>
     (hs \<and> k = ''course'' \<and> missing (course d) \<and>
        activity_type d \<in> {''lectures'', ''oral-exam'', ''written-exam''}) \<or>
     (hs \<and> k = ''professor'' \<and> missing (professor d) \<and> activity_type d = ''office-hours'')) \<and>
   (hs \<and> name d = [] \<and> activity_type d = ''lectures'' \<and> missing (course d) \<longrightarrow>
      reported ''name'' (validate hs d) \<and> reported ''course'' (validate hs d))"
proof (intro conjI)
  show "distinct (map path (errors (validate hs d)))"
    by (simp add: validate_def createFormSchema_def errors_resolve distinct_formSchema)
  show "reported k (validate hs d) \<longleftrightarrow>
     (k = ''activity_type'' \<and> activity_type d = []) \<or>
     (k = ''language'' \<and> language d = []) \<or>
     (k = ''name'' \<and> name d = []) \<or>
     (k = ''id'' \<and> id' d = []) \<or>
     (k = ''degree'' \<and> degree d = []) \<or>
     (k = ''date'' \<and> date d = []) \<or>
     (k = ''city'' \<and> city d = []) \<or>
     (hs \<and> k = ''course'' \<and> missing (course d) \<and>
        activity_type d \<in> {''lectures'', ''oral-exam'', ''written-exam''}) \<or>
     (hs \<and> k = ''professor'' \<and> missing (professor d) \<and> activity_type d = ''office-hours'')"
    by (rule reported_iff)
  show "hs \<and> name d = [] \<and> activity_type d = ''lectures'' \<and> missing (course d) \<longrightarrow>
      reported ''name'' (validate hs d) \<and> reported ''course'' (validate hs d)"
    by (simp add: reported_iff)
qed

theorem all_violations_reported_witness:
  "missing (course two_violations) \<and>
   reported ''name'' (validate True two_violations) \<and>
   reported ''course'' (validate True two_violations) \<and>
   distinct (map path (errors (validate True two_violations)))"
proof -
  have h: "True \<and> name two_violations = [] \<and> activity_type two_violations = ''lectures'' \<and>
      missing (course two_violations)"
    by (simp add: two_violations_def example_def missing_def trim_def js_whitespace_def)
  with all_violations_reported [of True two_violations "''name''"] show ?thesis
    by simp
qed

section \<open>The document\<close>

subsection \<open>Digits and dates\<close>







lemma toml_date_regex: "toml_date s = Some w \<Longrightarrow> date_regex s"
  by (induction s rule: toml_date.induct) (simp_all split: if_splits)




subsection \<open>What a document is made of\<close>

lemma document_Inr:
  "document inputs = Inr doc \<Longrightarrow>
     \<exists>when. toml_date (date inputs) = Some when \<and> activity_type inputs \<in> set activities \<and>
       doc = Grid [[Transl ''disi'' []], [Line], [Image (image_path inputs)]]
               # body inputs when"
  by (simp add: document_def split: if_splits option.splits)

lemma document_accepts:
  assumes "name inputs \<noteq> []" "id' inputs \<noteq> []" "degree inputs \<noteq> []" "city inputs \<noteq> []"
    "language inputs \<noteq> []" "provided (image_path inputs)"
    "activity_type inputs \<in> set activities" "toml_date (date inputs) = Some when"
  shows "document inputs =
           Inr (Grid [[Transl ''disi'' []], [Line], [Image (image_path inputs)]]
                # body inputs when)"
  using assms toml_date_regex [OF assms(8)]
  by (auto simp add: document_def provided_def one_if_def activities_def)

lemma document_rejects_date: "\<not> date_regex (date inputs) \<Longrightarrow> \<exists>e. document inputs = Inl e"
  by (simp add: document_def)


lemma checkboxes_body:
  "checkboxes (Grid g # body inputs when) =
     [(''lectures'', if activity_type inputs = ''lectures'' then Checked else Unchecked),
      (''exams'', if activity_type inputs = ''written-exam'' \<or>
                    activity_type inputs = ''oral-exam'' then Checked else Unchecked),
      (''written-exam'', if activity_type inputs = ''written-exam'' then Checked else Unchecked),
      (''oral-exam'', if activity_type inputs = ''oral-exam'' then Checked else Unchecked),
      (''office-hours'', if activity_type inputs = ''office-hours'' then Checked else Unchecked)]"
  by (simp add: body_def)

lemma occurrences_course:
  "occurrences ''course'' (Grid [[Transl ''disi'' []], [Line], [Image p]] # body inputs when) =
     [(''lecture-description'', Some (value_or_blank (course inputs))),
      (''for-the-course'', course inputs)]"
  by (simp add: body_def occurrences_def field_def)

lemma occurrences_professor:
  "occurrences ''professor''
       (Grid [[Transl ''disi'' []], [Line], [Image p]] # body inputs when) =
     [(''office-hours-description'', Some (value_or_blank (professor inputs)))]"
  by (simp add: body_def occurrences_def field_def)

lemma value_or_blank_not_empty: "value_or_blank v \<noteq> []"
  by (simp add: value_or_blank_def split: option.splits)

lemma value_or_blank_empty: "value_or_blank (Some []) = replicate 20 (CHR ''_'')"
  by (simp add: value_or_blank_def)

text \<open>The records of the examples, as the form sends them, and what the template does.\<close>

lemma documentInputs_example:
  "documentInputs (example\<lparr>activity_type := a, course := Some c\<rparr>) =
     example\<lparr>activity_type := a, course := Some c\<rparr>"
  by (simp add: documentInputs_def example_def or_default_def)

lemma document_example:
  assumes "a \<in> set activities"
  shows "document (example\<lparr>activity_type := a, course := Some c\<rparr>) =
     Inr (Grid [[Transl ''disi'' []], [Line], [Image (Some ''imgs/unitn.jpg'')]]
          # body (example\<lparr>activity_type := a, course := Some c\<rparr>)
              \<lparr>year = 2024, month = 1, day = 1\<rparr>)"
proof -
  have "document (example\<lparr>activity_type := a, course := Some c\<rparr>) =
     Inr (Grid [[Transl ''disi'' []], [Line],
                [Image (image_path (example\<lparr>activity_type := a, course := Some c\<rparr>))]]
          # body (example\<lparr>activity_type := a, course := Some c\<rparr>)
              \<lparr>year = 2024, month = 1, day = 1\<rparr>)"
    using assms by (intro document_accepts) (simp_all add: example_def provided_def
        is_digit_def digit_val_def days_in_month_def)
  then show ?thesis by (simp add: example_def)
qed

subsection \<open>The claims on dates\<close>

text \<open>
  C3, as amended. The validation of the form has no rule on the shape of the date: for
  both values of \<^verbatim>\<open>hasSubmittedOnce\<close> it reports the date exactly when it is the empty
  string. The shape \<^verbatim>\<open>YYYY-MM-DD\<close> is checked where the document is built: the template,
  which knows nothing of \<^verbatim>\<open>hasSubmittedOnce\<close>, gives an error and no document for every
  date that the pattern does not match.
\<close>

theorem date_shape_checked_by_template:
  "(reported ''date'' (validate hs d) \<longleftrightarrow> date d = []) \<and>
   (\<not> date_regex (date inputs) \<longrightarrow> (\<exists>e. document inputs = Inl e))"
  by (simp add: reported_iff document_rejects_date)

theorem date_shape_checked_by_template_witness:
  "\<not> date_regex (date (documentInputs malformed_date)) \<and>
   \<not> reported ''date'' (validate True malformed_date) \<and>
   (\<exists>e. document (documentInputs malformed_date) = Inl e)"
proof -
  have h: "\<not> date_regex (date (documentInputs malformed_date))"
    by (simp add: documentInputs_def malformed_date_def example_def)
  have n: "date malformed_date \<noteq> []"
    by (simp add: malformed_date_def example_def)
  from h n date_shape_checked_by_template
         [of True malformed_date "documentInputs malformed_date"]
  show ?thesis by simp
qed

text \<open>
  C3 as stated fails: the date \<^verbatim>\<open>01/01/2024\<close> is not of the shape, and the validation
  accepts the record that holds it, before the first submission and after it.
\<close>

theorem malformed_date_passes_validation:
  "\<not> date_regex (date malformed_date) \<and>
   validate False malformed_date = Inr malformed_date \<and>
   validate True malformed_date = Inr malformed_date"
  by (simp add: malformed_date_def example_def validate_def createFormSchema_def
      formSchema_def resolve_def baseSchema_def min1_def refinement_def missing_def trim_def
      js_whitespace_def)



subsection \<open>The claims on the check boxes and the blanks\<close>

text \<open>
  C6. A document has the five boxes \<^verbatim>\<open>lectures\<close>, \<^verbatim>\<open>exams\<close>, \<^verbatim>\<open>written-exam\<close>,
  \<^verbatim>\<open>oral-exam\<close> and \<^verbatim>\<open>office-hours\<close>, each once. Of the four branches exactly the one
  of the activity is ticked and the other three are empty; the parent box \<^verbatim>\<open>exams\<close> is
  ticked for the two exams only, and at most one of \<^verbatim>\<open>written-exam\<close> and \<^verbatim>\<open>oral-exam\<close>
  is ticked.
\<close>

theorem one_branch_checked:
  "document inputs = Inr doc \<Longrightarrow>
     activity_type inputs \<in> set activities \<and>
     checkboxes doc =
       [(''lectures'', if activity_type inputs = ''lectures'' then Checked else Unchecked),
        (''exams'', if activity_type inputs = ''written-exam'' \<or>
                      activity_type inputs = ''oral-exam'' then Checked else Unchecked),
        (''written-exam'',
           if activity_type inputs = ''written-exam'' then Checked else Unchecked),
        (''oral-exam'', if activity_type inputs = ''oral-exam'' then Checked else Unchecked),
        (''office-hours'',
           if activity_type inputs = ''office-hours'' then Checked else Unchecked)] \<and>
     filter (\<lambda>k. k \<in> set activities) (checked doc) = [activity_type inputs] \<and>
     length (filter (\<lambda>k. k = ''written-exam'' \<or> k = ''oral-exam'') (checked doc)) \<le> 1"
proof -
  assume "document inputs = Inr doc"
  then obtain dt where a: "activity_type inputs \<in> set activities"
    and doc: "doc = Grid [[Transl ''disi'' []], [Line], [Image (image_path inputs)]]
                      # body inputs dt"
    using document_Inr by blast
  have boxes: "checkboxes doc =
       [(''lectures'', if activity_type inputs = ''lectures'' then Checked else Unchecked),
        (''exams'', if activity_type inputs = ''written-exam'' \<or>
                      activity_type inputs = ''oral-exam'' then Checked else Unchecked),
        (''written-exam'',
           if activity_type inputs = ''written-exam'' then Checked else Unchecked),
        (''oral-exam'', if activity_type inputs = ''oral-exam'' then Checked else Unchecked),
        (''office-hours'',
           if activity_type inputs = ''office-hours'' then Checked else Unchecked)]"
    unfolding doc by (rule checkboxes_body)
  from a have "activity_type inputs = ''lectures'' \<or> activity_type inputs = ''oral-exam'' \<or>
      activity_type inputs = ''written-exam'' \<or> activity_type inputs = ''office-hours''"
    by (simp add: activities_def)
  then have "filter (\<lambda>k. k \<in> set activities) (checked doc) = [activity_type inputs] \<and>
     length (filter (\<lambda>k. k = ''written-exam'' \<or> k = ''oral-exam'') (checked doc)) \<le> 1"
    by (elim disjE) (simp_all add: checked_def boxes activities_def)
  with a boxes show ?thesis by simp
qed

theorem one_branch_checked_witness:
  "\<exists>doc. document (example\<lparr>activity_type := ''oral-exam'', course := Some ''Logic''\<rparr>) = Inr doc \<and>
     checked doc = [''exams'', ''oral-exam''] \<and>
     filter (\<lambda>k. k \<in> set activities) (checked doc) = [''oral-exam'']"
proof -
  have a: "''oral-exam'' \<in> set activities"
    by (simp add: activities_def)
  have d: "document (example\<lparr>activity_type := ''oral-exam'', course := Some ''Logic''\<rparr>) =
     Inr (Grid [[Transl ''disi'' []], [Line], [Image (Some ''imgs/unitn.jpg'')]]
          # body (example\<lparr>activity_type := ''oral-exam'', course := Some ''Logic''\<rparr>)
              \<lparr>year = 2024, month = 1, day = 1\<rparr>)"
    by (rule document_example [OF a])
  from one_branch_checked [OF d] d show ?thesis
    by (simp add: checked_def activities_def)
qed

text \<open>
  C7. The claim: an empty course or professor appears as the blank of twenty underscores
  wherever the field appears. For office hours with an empty course the document has two
  places for the course: the description of the lectures gets the blank, and the line
  \<^verbatim>\<open>for-the-course\<close> gets the empty string.
\<close>

theorem empty_course_without_blank:
  "course office_hours_no_course = Some [] \<and>
   (\<exists>doc. document (documentInputs office_hours_no_course) = Inr doc \<and>
      occurrences ''course'' doc =
        [(''lecture-description'', Some (replicate 20 (CHR ''_''))),
         (''for-the-course'', Some [])])"
proof -
  have a: "''office-hours'' \<in> set activities"
    by (simp add: activities_def)
  have "documentInputs office_hours_no_course =
      example\<lparr>activity_type := ''office-hours'', course := Some []\<rparr>"
    unfolding office_hours_no_course_def by (rule documentInputs_example)
  with document_example [OF a, of "[]"] show ?thesis
    by (simp add: occurrences_course value_or_blank_empty office_hours_no_course_def)
qed

text \<open>
  C10. In every document the course appears twice: in the description of the lectures,
  through \<^verbatim>\<open>value-or-blank\<close>, and in the line \<^verbatim>\<open>for-the-course\<close>, as it is. So for an
  empty course the first is the blank of twenty underscores and the second is the empty
  string.
\<close>

theorem for_the_course_raw:
  "document inputs = Inr doc \<Longrightarrow>
     occurrences ''course'' doc =
       [(''lecture-description'', Some (value_or_blank (course inputs))),
        (''for-the-course'', course inputs)] \<and>
     (course inputs = Some [] \<longrightarrow>
        occurrences ''course'' doc =
          [(''lecture-description'', Some (replicate 20 (CHR ''_''))),
           (''for-the-course'', Some [])])"
proof -
  assume "document inputs = Inr doc"
  then obtain dt where
    doc: "doc = Grid [[Transl ''disi'' []], [Line], [Image (image_path inputs)]]
                  # body inputs dt"
    using document_Inr by blast
  have "occurrences ''course'' doc =
       [(''lecture-description'', Some (value_or_blank (course inputs))),
        (''for-the-course'', course inputs)]"
    unfolding doc by (rule occurrences_course)
  then show ?thesis
    by (simp add: value_or_blank_empty)
qed

theorem for_the_course_raw_witness:
  "\<exists>doc. document (example\<lparr>activity_type := ''lectures'', course := Some []\<rparr>) = Inr doc \<and>
     occurrences ''course'' doc =
       [(''lecture-description'', Some ''____________________''), (''for-the-course'', Some [])]"
proof -
  have a: "''lectures'' \<in> set activities"
    by (simp add: activities_def)
  have d: "document (example\<lparr>activity_type := ''lectures'', course := Some []\<rparr>) =
     Inr (Grid [[Transl ''disi'' []], [Line], [Image (Some ''imgs/unitn.jpg'')]]
          # body (example\<lparr>activity_type := ''lectures'', course := Some []\<rparr>)
              \<lparr>year = 2024, month = 1, day = 1\<rparr>)"
    by (rule document_example [OF a])
  have c: "course (example\<lparr>activity_type := ''lectures'', course := Some []\<rparr>) = Some []"
    by simp
  have r: "replicate 20 (CHR ''_'') = ''____________________''"
    by (simp add: numeral_eq_Suc)
  from for_the_course_raw [OF d] c d show ?thesis
    by (simp add: r value_or_blank_def)
qed

section \<open>The session\<close>

subsection \<open>Requests in flight\<close>

text \<open>
  A submission that the resolver of the last render accepts sends a request whenever the
  \<^verbatim>\<open>isGenerating\<close> of that render is false, whatever is in flight already; on the first
  submission that resolver is the one without the conditional rules, in
  \<^verbatim>\<open>handleSubmit\<close> and in \<^verbatim>\<open>form.trigger()\<close> alike.
\<close>

lemma submit_sends:
  assumes "\<not> isGenerating (rendered s)"
    and "errors (validate (hasSubmittedOnce (rendered s)) d) = []"
  shows "outstanding (handleSubmit s d) = outstanding s @ [documentInputs d] \<and>
         isGenerating (pending (handleSubmit s d)) \<and>
         hasSubmittedOnce (pending (handleSubmit s d)) =
           (hasSubmittedOnce (pending s) \<or> \<not> hasSubmittedOnce (rendered s)) \<and>
         rendered (handleSubmit s d) = rendered s"
proof -
  from assms(2) have v: "validate (hasSubmittedOnce (rendered s)) d = Inr d"
    by (simp add: validate_errors_Nil)
  show ?thesis
  proof (cases "hasSubmittedOnce (rendered s)")
    case True
    with assms(1) v show ?thesis
      by (simp add: handleSubmit_def onSubmit_def generate_def setIsGenerating_def)
  next
    case False
    with assms(1) v show ?thesis
      by (simp add: handleSubmit_def onSubmit_def trigger_def generate_def Let_def errors_def
          setIsGenerating_def setHasSubmittedOnce_def)
  qed
qed

lemma submit_while_generating: "isGenerating (rendered s) \<Longrightarrow> handleSubmit s d = s"
  by (simp add: handleSubmit_def onSubmit_def split: sum.splits)

lemma buildReturned_clears:
  "outstanding s \<noteq> [] \<Longrightarrow> \<not> isGenerating (pending (buildReturned s ok))"
  by (simp add: buildReturned_def setIsGenerating_def split: list.splits)

lemma hasSubmittedOnce_stays:
  "hasSubmittedOnce (pending s) \<Longrightarrow> hasSubmittedOnce (pending (step s e))"
  by (cases e)
    (auto simp add: handleSubmit_def onSubmit_def generate_def buildReturned_def render_def
      setIsGenerating_def setHasSubmittedOnce_def Let_def split: sum.splits list.splits)

text \<open>
  When the component renders after every event, at most one request is in flight,
  \<^verbatim>\<open>isGenerating\<close> is true exactly when there is one, a submission while it is true
  changes nothing, and the answer of the service leaves it false.
\<close>

lemma in_flight_ok_handleSubmit: "in_flight_ok s \<Longrightarrow> in_flight_ok (render (handleSubmit s d))"
  by (auto simp add: in_flight_ok_def handleSubmit_def onSubmit_def generate_def render_def
      setIsGenerating_def setHasSubmittedOnce_def Let_def split: sum.splits)

lemma in_flight_ok_buildReturned:
  "in_flight_ok s \<Longrightarrow> in_flight_ok (render (buildReturned s ok))"
  by (auto simp add: in_flight_ok_def buildReturned_def render_def setIsGenerating_def
      split: list.splits)

lemma in_flight_ok_render: "in_flight_ok s \<Longrightarrow> in_flight_ok (render (render s))"
  by (auto simp add: in_flight_ok_def render_def)

lemma in_flight_ok_step: "in_flight_ok s \<Longrightarrow> in_flight_ok (step_then_render s e)"
  unfolding step_then_render_def
  by (cases e)
    (simp_all add: in_flight_ok_handleSubmit in_flight_ok_buildReturned in_flight_ok_render)

lemma in_flight_ok_foldl:
  "in_flight_ok s \<Longrightarrow> in_flight_ok (foldl step_then_render s es)"
  by (induction es arbitrary: s) (simp_all add: in_flight_ok_step)

lemma one_build_in_flight_when_rendered:
  "length (outstanding (run_rendered es)) \<le> 1 \<and>
   (isGenerating (rendered (run_rendered es)) \<longleftrightarrow> outstanding (run_rendered es) \<noteq> []) \<and>
   (isGenerating (rendered (run_rendered es)) \<longrightarrow>
      step (run_rendered es) (Submit d) = run_rendered es) \<and>
   \<not> isGenerating (rendered (step_then_render (run_rendered es) (BuildReturned ok)))"
proof -
  have "in_flight_ok initial"
    by (simp add: in_flight_ok_def initial_def)
  then have ok: "in_flight_ok (run_rendered es)"
    unfolding run_rendered_def by (rule in_flight_ok_foldl)
  then have "in_flight_ok (step_then_render (run_rendered es) (BuildReturned ok))"
    by (rule in_flight_ok_step)
  moreover have "outstanding (step_then_render (run_rendered es) (BuildReturned ok)) = []"
    using ok
    by (auto simp add: step_then_render_def in_flight_ok_def buildReturned_def render_def
        setIsGenerating_def split: list.splits)
  ultimately have "\<not> isGenerating (rendered (step_then_render (run_rendered es)
      (BuildReturned ok)))"
    by (auto simp add: in_flight_ok_def)
  with ok show ?thesis
    by (auto simp add: in_flight_ok_def submit_while_generating)
qed

subsection \<open>The claims on the session\<close>

text \<open>
  C4. The claim: the first submission is validated under the strict rules, so one that
  has no course for lectures is rejected and no document is asked for. In a new session
  the record \<open>lectures_no_course\<close> breaks the conditional rule on the course, and its
  first submission sends the build request all the same: \<^verbatim>\<open>setHasSubmittedOnce(true)\<close>
  changes the resolver at the next render only, and \<^verbatim>\<open>form.trigger()\<close> runs before it.
  The same record submitted again after the answer, the component having rendered, is
  rejected.
\<close>

theorem first_submission_not_strict:
  "errors (validate True lectures_no_course) \<noteq> [] \<and>
   run [Submit lectures_no_course] =
     \<lparr>rendered = \<lparr>hasSubmittedOnce = False, isGenerating = False\<rparr>,
      pending = \<lparr>hasSubmittedOnce = True, isGenerating = True\<rparr>,
      outstanding = [documentInputs lectures_no_course]\<rparr> \<and>
   run [Submit lectures_no_course, Render] =
     \<lparr>rendered = \<lparr>hasSubmittedOnce = True, isGenerating = True\<rparr>,
      pending = \<lparr>hasSubmittedOnce = True, isGenerating = True\<rparr>,
      outstanding = [documentInputs lectures_no_course]\<rparr> \<and>
   run [Submit lectures_no_course, Render, BuildReturned False, Render,
        Submit lectures_no_course] =
     \<lparr>rendered = \<lparr>hasSubmittedOnce = True, isGenerating = False\<rparr>,
      pending = \<lparr>hasSubmittedOnce = True, isGenerating = False\<rparr>,
      outstanding = []\<rparr>"
  by (simp add: run_def initial_def lectures_no_course_def example_def handleSubmit_def
      onSubmit_def trigger_def generate_def buildReturned_def render_def
      setIsGenerating_def setHasSubmittedOnce_def validate_def resolve_def
      createFormSchema_def formSchema_def baseSchema_def min1_def refinement_def missing_def
      addIssue_def errors_def Let_def trim_def js_whitespace_def)

text \<open>
  C9. The claim: at most one build request is in flight, and a submission while one is
  outstanding does nothing. The guard of \<^verbatim>\<open>onSubmit\<close> reads the \<^verbatim>\<open>isGenerating\<close> of the
  render that created the handler, which \<^verbatim>\<open>setIsGenerating(true)\<close> does not change. In a
  new session two submissions of the same valid record before the component renders both
  pass the guard, and two requests are in flight; with a render between them the second
  does nothing, and the answer of the service clears the flag.
\<close>

theorem two_submits_before_render:
  "outstanding (run [Submit example, Submit example]) =
     [documentInputs example, documentInputs example] \<and>
   run [Submit example, Render, Submit example] = run [Submit example, Render] \<and>
   outstanding (run [Submit example, Render, Submit example]) = [documentInputs example] \<and>
   pending (run [Submit example, Render, BuildReturned False]) =
     \<lparr>hasSubmittedOnce = True, isGenerating = False\<rparr>"
  by (simp add: run_def initial_def example_def handleSubmit_def
      onSubmit_def trigger_def generate_def buildReturned_def render_def
      setIsGenerating_def setHasSubmittedOnce_def validate_def resolve_def
      createFormSchema_def formSchema_def baseSchema_def min1_def refinement_def missing_def
      addIssue_def errors_def Let_def trim_def js_whitespace_def)

end
